theory Spec2Isabelle
  imports Complex_Main "HOL-Library.Log_Nat"
begin

section \<open>Python values used by main.py\<close>

subsection \<open>float: IEEE 754 binary64, round to nearest, ties to even\<close>

text \<open>
  Every price in main.py is a Python \<^verbatim>\<open>float\<close>, that is a binary64 number, and every
  \<^verbatim>\<open>*\<close>, \<^verbatim>\<open>+\<close> and \<^verbatim>\<open>-\<close> on prices rounds its exact result to the nearest binary64 number,
  ties to the even significand. A finite binary64 value is modelled by the rational
  number it denotes. \<open>rnd\<close> is the rounding: the exponent \<open>e\<close> of the last place is
  \<open>\<lfloor>log\<^sub>2 \<bar>q\<bar>\<rfloor> - 52\<close>, not below \<open>-1074\<close> (the subnormal range), and the significand is
  \<open>\<bar>q\<bar> / 2\<^sup>e\<close> rounded to an integer, halves to the even neighbour. Overflow to infinity
  (results of magnitude \<open>2\<^sup>1\<^sup>0\<^sup>2\<^sup>4\<close> and above) is outside the model; the largest price the
  tables allow is near \<open>320 * 1.4 + 60 + 4 * 40 + 0.2\<close>.
\<close>

type_synonym double = rat

definition pow2 :: "int \<Rightarrow> rat" where
  "pow2 e = (if 0 \<le> e then 2 ^ nat e else 1 / 2 ^ nat (- e))"

definition round_half_even :: "rat \<Rightarrow> int" where
  "round_half_even r =
     (let f = \<lfloor>r\<rfloor>; d = r - of_int f
      in if d < 1 / 2 then f else if 1 / 2 < d then f + 1 else if even f then f else f + 1)"

text \<open>\<open>ilog2 q\<close> is \<open>\<lfloor>log\<^sub>2 q\<rfloor>\<close> for a positive rational, from the bit lengths of its
  numerator and denominator.\<close>

definition ilog2 :: "rat \<Rightarrow> int" where
  "ilog2 q =
     (let (n, d) = quotient_of q; k = bitlen n - bitlen d
      in if pow2 k \<le> q then k else k - 1)"

definition rnd :: "rat \<Rightarrow> double" where
  "rnd q =
     (if q = 0 then 0
      else let a = \<bar>q\<bar>;
               e = max (ilog2 a - 52) (- 1074);
               m = round_half_even (a / pow2 e)
           in sgn q * of_int m * pow2 e)"

text \<open>A decimal literal such as \<^verbatim>\<open>1.2\<close> denotes the binary64 number nearest to it.\<close>

definition float_lit :: "rat \<Rightarrow> double" where
  "float_lit q = rnd q"

text \<open>\<^verbatim>\<open>int * float\<close> converts the \<^verbatim>\<open>int\<close> to \<^verbatim>\<open>float\<close> first.\<close>

definition float_of_int :: "int \<Rightarrow> double" where
  "float_of_int i = rnd (of_int i)"

definition fadd :: "double \<Rightarrow> double \<Rightarrow> double" where
  "fadd x y = rnd (x + y)"

definition fsub :: "double \<Rightarrow> double \<Rightarrow> double" where
  "fsub x y = rnd (x - y)"

definition fmul :: "double \<Rightarrow> double \<Rightarrow> double" where
  "fmul x y = rnd (x * y)"

subsection \<open>str, join, dict lookup, exceptions\<close>

text \<open>\<^verbatim>\<open>str(n)\<close> of an \<^verbatim>\<open>int\<close>, as the f-strings of main.py render \<^verbatim>\<open>MAX_SYRUPS\<close>,
  \<^verbatim>\<open>MAX_SUGAR\<close> and the sugar count.\<close>

fun str_nat :: "nat \<Rightarrow> string" where
  "str_nat n =
     (if n < 10 then [''0123456789'' ! n]
      else str_nat (n div 10) @ [''0123456789'' ! (n mod 10)])"

declare str_nat.simps [simp del]

definition str_int :: "int \<Rightarrow> string" where
  "str_int i = (if i < 0 then ''-'' @ str_nat (nat (- i)) else str_nat (nat i))"

text \<open>\<^verbatim>\<open>sep.join(parts)\<close>.\<close>

fun join :: "string \<Rightarrow> string list \<Rightarrow> string" where
  "join sep [] = []"
| "join sep [x] = x"
| "join sep (x # y # ys) = x @ sep @ join sep (y # ys)"

text \<open>Every \<^verbatim>\<open>raise\<close> of main.py is a \<^verbatim>\<open>ValueError\<close> with a message; a dict subscript with a
  missing key raises \<^verbatim>\<open>KeyError\<close>.\<close>

datatype error = ValueError string | KeyError string

definition dict_get :: "(string \<times> 'v) list \<Rightarrow> string \<Rightarrow> error + 'v" where
  "dict_get d k = (case map_of d k of None \<Rightarrow> Inl (KeyError k) | Some v \<Rightarrow> Inr v)"

text \<open>The rendering of a set of strings inside an f-string. Python iterates a set in hash
  order, which differs between runs; the elements are rendered here in the order of the
  source's set display.\<close>

definition repr_set :: "string list \<Rightarrow> string" where
  "repr_set xs = ''{'' @ join '', '' (map (\<lambda>x. [CHR 0x27] @ x @ [CHR 0x27]) xs) @ ''}''"

section \<open>CoffeeOrder and CoffeeOrderBuilder\<close>

text \<open>The frozen dataclass \<^verbatim>\<open>CoffeeOrder\<close>; its fields carry the prefix \<open>o_\<close> here, the
  builder's attributes \<^verbatim>\<open>_base\<close>, \<^verbatim>\<open>_size\<close>, ... the prefix \<open>b_\<close>.\<close>

record CoffeeOrder =
  o_base :: string
  o_size :: string
  o_milk :: string
  o_syrups :: "string list"
  o_sugar :: int
  o_iced :: bool
  o_price :: double
  o_description :: string

record CoffeeOrderBuilder =
  b_base :: "string option"
  b_size :: "string option"
  b_milk :: string
  b_syrups :: "string list"
  b_sugar :: int
  b_iced :: bool

definition BASE_PRICES :: "(string \<times> double) list" where
  "BASE_PRICES =
     [(''espresso'', float_lit 200), (''americano'', float_lit 250),
      (''latte'', float_lit 300), (''cappuccino'', float_lit 320)]"

definition SIZE_MULTIPLIERS :: "(string \<times> double) list" where
  "SIZE_MULTIPLIERS =
     [(''small'', float_lit 1), (''medium'', float_lit (12 / 10)), (''large'', float_lit (14 / 10))]"

definition MILK_PRICES :: "(string \<times> double) list" where
  "MILK_PRICES =
     [(''none'', float_lit 0), (''whole'', float_lit 30), (''skim'', float_lit 30),
      (''oat'', float_lit 60), (''soy'', float_lit 50)]"

definition SYRUP_PRICE :: double where
  "SYRUP_PRICE = float_lit 40"

definition ICED_PRICE :: double where
  "ICED_PRICE = float_lit (2 / 10)"

definition MAX_SUGAR :: int where
  "MAX_SUGAR = 5"

definition MAX_SYRUPS :: int where
  "MAX_SYRUPS = 4"

definition VALID_BASES :: "string list" where
  "VALID_BASES = [''espresso'', ''americano'', ''latte'', ''cappuccino'']"

definition VALID_SIZES :: "string list" where
  "VALID_SIZES = [''small'', ''medium'', ''large'']"

definition VALID_MILKS :: "string list" where
  "VALID_MILKS = [''none'', ''whole'', ''skim'', ''oat'', ''soy'']"

text \<open>A method that returns \<^verbatim>\<open>self\<close> or raises is a function from the builder's state to
  the outcome and the state the call leaves behind.\<close>

definition clear_extras :: "CoffeeOrderBuilder \<Rightarrow> (error + unit) \<times> CoffeeOrderBuilder" where
  "clear_extras b =
     (Inr (), b\<lparr>b_milk := ''none'', b_syrups := [], b_sugar := 0, b_iced := False\<rparr>)"

text \<open>\<^verbatim>\<open>__init__\<close>: \<^verbatim>\<open>clear_extras()\<close>, then \<^verbatim>\<open>_base = None\<close> and \<^verbatim>\<open>_size = None\<close>.\<close>

definition init :: CoffeeOrderBuilder where
  "init = \<lparr>b_base = None, b_size = None, b_milk = ''none'', b_syrups = [], b_sugar = 0,
            b_iced = False\<rparr>"

text \<open>Line 71 of main.py, the \<^verbatim>\<open>if\<close> of \<^verbatim>\<open>set_base\<close>, is indented with a tab where its
  neighbours use spaces; it is read as the first statement of the method's body, as in
  \<^verbatim>\<open>set_size\<close> and \<^verbatim>\<open>set_milk\<close>.\<close>

definition set_base :: "string \<Rightarrow> CoffeeOrderBuilder \<Rightarrow> (error + unit) \<times> CoffeeOrderBuilder" where
  "set_base base b =
     (if base \<notin> set VALID_BASES
      then (Inl (ValueError (''Invalid base: '' @ base @ ''. Must be one of '' @ repr_set VALID_BASES)), b)
      else (Inr (), b\<lparr>b_base := Some base\<rparr>))"

definition set_size :: "string \<Rightarrow> CoffeeOrderBuilder \<Rightarrow> (error + unit) \<times> CoffeeOrderBuilder" where
  "set_size sz b =
     (if sz \<notin> set VALID_SIZES
      then (Inl (ValueError (''invalid size: '' @ sz @ ''. must be one of '' @ repr_set VALID_SIZES)), b)
      else (Inr (), b\<lparr>b_size := Some sz\<rparr>))"

definition set_milk :: "string \<Rightarrow> CoffeeOrderBuilder \<Rightarrow> (error + unit) \<times> CoffeeOrderBuilder" where
  "set_milk milk b =
     (if milk \<notin> set VALID_MILKS
      then (Inl (ValueError (''invalid milk type: '' @ milk @ ''. must be one of '' @ repr_set VALID_MILKS)), b)
      else (Inr (), b\<lparr>b_milk := milk\<rparr>))"

definition add_syrup :: "string \<Rightarrow> CoffeeOrderBuilder \<Rightarrow> (error + unit) \<times> CoffeeOrderBuilder" where
  "add_syrup name b =
     (if int (length (b_syrups b)) \<ge> MAX_SYRUPS
      then (Inl (ValueError (''cannot add more than '' @ str_int MAX_SYRUPS @ '' syrups'')), b)
      else if name \<notin> set (b_syrups b)
      then (Inr (), b\<lparr>b_syrups := b_syrups b @ [name]\<rparr>)
      else (Inr (), b))"

definition set_sugar :: "int \<Rightarrow> CoffeeOrderBuilder \<Rightarrow> (error + unit) \<times> CoffeeOrderBuilder" where
  "set_sugar teaspoons b =
     (if \<not> (0 \<le> teaspoons \<and> teaspoons \<le> MAX_SUGAR)
      then (Inl (ValueError (''sugar quantity must be between 0 and '' @ str_int MAX_SUGAR)), b)
      else (Inr (), b\<lparr>b_sugar := teaspoons\<rparr>))"

definition set_iced :: "bool \<Rightarrow> CoffeeOrderBuilder \<Rightarrow> (error + unit) \<times> CoffeeOrderBuilder" where
  "set_iced iced b = (Inr (), b\<lparr>b_iced := iced\<rparr>)"

text \<open>\<^verbatim>\<open>_calculate_price\<close> and \<^verbatim>\<open>_build_description\<close> read the state and change nothing.\<close>

definition calculate_price :: "CoffeeOrderBuilder \<Rightarrow> error + double" where
  "calculate_price b =
     (case (b_base b, b_size b) of
        (Some base, Some sz) \<Rightarrow>
          (case dict_get BASE_PRICES base of
             Inl e \<Rightarrow> Inl e
           | Inr base_price \<Rightarrow>
          (case dict_get SIZE_MULTIPLIERS sz of
             Inl e \<Rightarrow> Inl e
           | Inr size_multiplier \<Rightarrow>
          (case dict_get MILK_PRICES (b_milk b) of
             Inl e \<Rightarrow> Inl e
           | Inr milk_price \<Rightarrow>
               let price = fmul base_price size_multiplier;
                   price = fadd price milk_price;
                   price = fadd price (fmul (float_of_int (int (length (b_syrups b)))) SYRUP_PRICE);
                   price = (if b_iced b then fadd price ICED_PRICE else price)
               in Inr price)))
      | _ \<Rightarrow> Inl (ValueError ''base and size must be set before calculating price''))"

definition build_description :: "CoffeeOrderBuilder \<Rightarrow> string" where
  "build_description b =
     (case (b_base b, b_size b) of
        (Some base, Some sz) \<Rightarrow>
          let parts = [sz @ '' '' @ base];
              parts = (if b_milk b \<noteq> ''none''
                       then parts @ [''with '' @ b_milk b @ '' milk''] else parts);
              parts = (if b_syrups b \<noteq> []
                       then parts @ [''+'' @ join ''+'' (b_syrups b)] else parts);
              parts = (if b_iced b then parts @ [''(iced)''] else parts);
              parts = (if b_sugar b > 0
                       then parts @ [str_int (b_sugar b) @ '' tsp sugar''] else parts)
          in join '' '' parts
      | _ \<Rightarrow> [])"

definition build :: "CoffeeOrderBuilder \<Rightarrow> (error + CoffeeOrder) \<times> CoffeeOrderBuilder" where
  "build b =
     (case b_base b of
        None \<Rightarrow> (Inl (ValueError ''base is required''), b)
      | Some base \<Rightarrow>
     (case b_size b of
        None \<Rightarrow> (Inl (ValueError ''size is required''), b)
      | Some sz \<Rightarrow>
          if int (length (b_syrups b)) > MAX_SYRUPS
          then (Inl (ValueError (''cannot have more than '' @ str_int MAX_SYRUPS @ '' syrups'')), b)
          else if \<not> (0 \<le> b_sugar b \<and> b_sugar b \<le> MAX_SUGAR)
          then (Inl (ValueError (''sugar quantity must be between 0 and '' @ str_int MAX_SUGAR)), b)
          else
            (case calculate_price b of
               Inl e \<Rightarrow> (Inl e, b)
             | Inr price \<Rightarrow>
                 let description = build_description b
                 in (Inr \<lparr>o_base = base, o_size = sz, o_milk = b_milk b, o_syrups = b_syrups b,
                          o_sugar = b_sugar b, o_iced = b_iced b, o_price = price,
                          o_description = description\<rparr>, b))))"

section \<open>Call sequences\<close>

text \<open>Method chaining \<^verbatim>\<open>x.f().g()\<close>: \<^verbatim>\<open>g\<close> runs on the state \<^verbatim>\<open>f\<close> left, unless \<^verbatim>\<open>f\<close> raised;
  then the exception propagates and \<^verbatim>\<open>g\<close> is never called.\<close>

definition chain ::
  "(error + unit) \<times> CoffeeOrderBuilder \<Rightarrow> (CoffeeOrderBuilder \<Rightarrow> (error + 'a) \<times> CoffeeOrderBuilder)
     \<Rightarrow> (error + 'a) \<times> CoffeeOrderBuilder" where
  "chain r f = (case r of (Inl e, b) \<Rightarrow> (Inl e, b) | (Inr u, b) \<Rightarrow> f b)"

text \<open>A caller's view of one builder over time: the builder's state and the orders that
  \<^verbatim>\<open>build()\<close> has returned so far, oldest first. A call that raises leaves the caller
  with the state the call left behind, and the caller may go on.\<close>

datatype op =
  SetBase string | SetSize string | SetMilk string | AddSyrup string | SetSugar int
| SetIced bool | ClearExtras | Build

record world =
  w_builder :: CoffeeOrderBuilder
  w_orders :: "CoffeeOrder list"

fun exec :: "op \<Rightarrow> world \<Rightarrow> world" where
  "exec (SetBase x) w = w\<lparr>w_builder := snd (set_base x (w_builder w))\<rparr>"
| "exec (SetSize x) w = w\<lparr>w_builder := snd (set_size x (w_builder w))\<rparr>"
| "exec (SetMilk x) w = w\<lparr>w_builder := snd (set_milk x (w_builder w))\<rparr>"
| "exec (AddSyrup x) w = w\<lparr>w_builder := snd (add_syrup x (w_builder w))\<rparr>"
| "exec (SetSugar n) w = w\<lparr>w_builder := snd (set_sugar n (w_builder w))\<rparr>"
| "exec (SetIced f) w = w\<lparr>w_builder := snd (set_iced f (w_builder w))\<rparr>"
| "exec ClearExtras w = w\<lparr>w_builder := snd (clear_extras (w_builder w))\<rparr>"
| "exec Build w =
     (case build (w_builder w) of
        (Inl e, b') \<Rightarrow> w\<lparr>w_builder := b'\<rparr>
      | (Inr order, b') \<Rightarrow> \<lparr>w_builder = b', w_orders = w_orders w @ [order]\<rparr>)"

fun run :: "op list \<Rightarrow> world \<Rightarrow> world" where
  "run [] w = w"
| "run (x # xs) w = run xs (exec x w)"

definition fresh :: world where
  "fresh = \<lparr>w_builder = init, w_orders = []\<rparr>"

section \<open>The specification's tables and wording\<close>

text \<open>The price tables and the price formula as the specification gives them. The
  arithmetic is that of the code, binary64: each \<open>*\<close> and \<open>+\<close> of the formula rounds.\<close>

definition spec_BASE_PRICE :: "string \<Rightarrow> double option" where
  "spec_BASE_PRICE x =
     (if x = ''espresso'' then Some (float_lit 200)
      else if x = ''americano'' then Some (float_lit 250)
      else if x = ''latte'' then Some (float_lit 300)
      else if x = ''cappuccino'' then Some (float_lit 320)
      else None)"

definition spec_SIZE_MULTIPLIER :: "string \<Rightarrow> double option" where
  "spec_SIZE_MULTIPLIER x =
     (if x = ''small'' then Some (float_lit 1)
      else if x = ''medium'' then Some (float_lit (12 / 10))
      else if x = ''large'' then Some (float_lit (14 / 10))
      else None)"

definition spec_MILK_SURCHARGE :: "string \<Rightarrow> double option" where
  "spec_MILK_SURCHARGE x =
     (if x = ''none'' then Some (float_lit 0)
      else if x = ''whole'' then Some (float_lit 30)
      else if x = ''skim'' then Some (float_lit 30)
      else if x = ''oat'' then Some (float_lit 60)
      else if x = ''soy'' then Some (float_lit 50)
      else None)"

definition spec_price :: "string \<Rightarrow> string \<Rightarrow> string \<Rightarrow> nat \<Rightarrow> bool \<Rightarrow> double option" where
  "spec_price base sz milk n iced =
     (case (spec_BASE_PRICE base, spec_SIZE_MULTIPLIER sz, spec_MILK_SURCHARGE milk) of
        (Some bp, Some sm, Some ms) \<Rightarrow>
          Some (fadd (fadd (fadd (fmul bp sm) ms) (fmul (float_of_int (int n)) (float_lit 40)))
                  (if iced then float_lit (2 / 10) else float_lit 0))
      | _ \<Rightarrow> None)"

text \<open>The description as the specification words it.\<close>


text \<open>The parts in order: size and base; the milk, unless it is \<^verbatim>\<open>none\<close>; the syrup names,
  each with a \<^verbatim>\<open>+\<close> before it, in insertion order, if there are any; \<^verbatim>\<open>(iced)\<close>; the sugar
  count, if positive. The parts present are joined by single spaces.\<close>

definition spec_description ::
  "string \<Rightarrow> string \<Rightarrow> string \<Rightarrow> string list \<Rightarrow> bool \<Rightarrow> int \<Rightarrow> string" where
  "spec_description base sz milk syrups iced sugar =
     join '' ''
       ([sz @ '' '' @ base]
        @ (if milk \<noteq> ''none'' then [''with '' @ milk @ '' milk''] else [])
        @ (if syrups \<noteq> [] then [concat (map (\<lambda>s. CHR ''+'' # s) syrups)] else [])
        @ (if iced then [''(iced)''] else [])
        @ (if sugar > 0 then [str_int sugar @ '' tsp sugar''] else []))"

section \<open>The builder's invariant\<close>

text \<open>What the setters establish and keep: at most 4 syrups, pairwise distinct, sugar
  between 0 and 5, and milk, base and size from the valid sets.\<close>

definition builder_inv :: "CoffeeOrderBuilder \<Rightarrow> bool" where
  "builder_inv b =
     (distinct (b_syrups b) \<and> length (b_syrups b) \<le> 4 \<and> 0 \<le> b_sugar b \<and> b_sugar b \<le> 5 \<and>
      b_milk b \<in> set VALID_MILKS \<and>
      (case b_base b of None \<Rightarrow> True | Some x \<Rightarrow> x \<in> set VALID_BASES) \<and>
      (case b_size b of None \<Rightarrow> True | Some x \<Rightarrow> x \<in> set VALID_SIZES))"

section \<open>Objects and references\<close>

text \<open>
  Whether an order that \<^verbatim>\<open>build()\<close> has returned can change later depends on what the order
  shares with the builder. Python's objects are modelled for that question: an order keeps
  a reference to the tuple that was the builder's \<^verbatim>\<open>_syrups\<close> when it was built.
\<close>

type_synonym addr = nat

text \<open>The builder object and an order object: their attributes hold strings, numbers and
  booleans, which have no identity that matters, and a reference to a tuple object
  (\<^verbatim>\<open>_syrups\<close>, \<^verbatim>\<open>syrups\<close>).\<close>

record BuilderObject =
  p_base :: "string option"
  p_size :: "string option"
  p_milk :: string
  p_syrups :: addr
  p_sugar :: int
  p_iced :: bool

record OrderObject =
  q_base :: string
  q_size :: string
  q_milk :: string
  q_syrups :: addr
  q_sugar :: int
  q_iced :: bool
  q_price :: double
  q_description :: string

text \<open>The heap: the tuple objects and the order objects allocated so far (addresses below
  \<open>tuple_next\<close> and \<open>order_next\<close>), and the one builder object.\<close>

record pyheap =
  tuple_at :: "addr \<Rightarrow> string list"
  tuple_next :: addr
  order_at :: "addr \<Rightarrow> OrderObject"
  order_next :: addr
  h_builder :: BuilderObject

text \<open>What the attributes of the builder and of an order read as, references followed.\<close>

definition view_builder :: "pyheap \<Rightarrow> CoffeeOrderBuilder" where
  "view_builder h =
     \<lparr>b_base = p_base (h_builder h), b_size = p_size (h_builder h), b_milk = p_milk (h_builder h),
      b_syrups = tuple_at h (p_syrups (h_builder h)), b_sugar = p_sugar (h_builder h),
      b_iced = p_iced (h_builder h)\<rparr>"

definition view_order :: "pyheap \<Rightarrow> addr \<Rightarrow> CoffeeOrder" where
  "view_order h a =
     \<lparr>o_base = q_base (order_at h a), o_size = q_size (order_at h a),
      o_milk = q_milk (order_at h a), o_syrups = tuple_at h (q_syrups (order_at h a)),
      o_sugar = q_sugar (order_at h a), o_iced = q_iced (order_at h a),
      o_price = q_price (order_at h a), o_description = q_description (order_at h a)\<rparr>"

text \<open>A tuple expression (\<^verbatim>\<open>()\<close>, \<^verbatim>\<open>self._syrups + (name,)\<close>) makes a new tuple object; no
  operation of main.py changes a tuple object that exists.\<close>

definition new_tuple :: "string list \<Rightarrow> pyheap \<Rightarrow> addr \<times> pyheap" where
  "new_tuple xs h =
     (tuple_next h,
      h\<lparr>tuple_at := (tuple_at h)(tuple_next h := xs), tuple_next := Suc (tuple_next h)\<rparr>)"

text \<open>The methods on the heap. \<^verbatim>\<open>clear_extras\<close> and \<^verbatim>\<open>add_syrup\<close> bind \<^verbatim>\<open>_syrups\<close> to a new
  tuple; the other setters assign one attribute; \<^verbatim>\<open>__init__\<close> is \<open>h_init\<close>.\<close>

definition h_clear_extras :: "pyheap \<Rightarrow> (error + unit) \<times> pyheap" where
  "h_clear_extras h =
     (let (a, h1) = new_tuple [] h
      in (Inr (), h1\<lparr>h_builder := (h_builder h1)\<lparr>p_milk := ''none'', p_syrups := a, p_sugar := 0,
                                                 p_iced := False\<rparr>\<rparr>))"

definition h_init :: "pyheap \<Rightarrow> pyheap" where
  "h_init h =
     (let h1 = snd (h_clear_extras h)
      in h1\<lparr>h_builder := (h_builder h1)\<lparr>p_base := None, p_size := None\<rparr>\<rparr>)"

definition h_set_base :: "string \<Rightarrow> pyheap \<Rightarrow> (error + unit) \<times> pyheap" where
  "h_set_base base h =
     (if base \<notin> set VALID_BASES
      then (Inl (ValueError (''Invalid base: '' @ base @ ''. Must be one of '' @ repr_set VALID_BASES)), h)
      else (Inr (), h\<lparr>h_builder := (h_builder h)\<lparr>p_base := Some base\<rparr>\<rparr>))"

definition h_set_size :: "string \<Rightarrow> pyheap \<Rightarrow> (error + unit) \<times> pyheap" where
  "h_set_size sz h =
     (if sz \<notin> set VALID_SIZES
      then (Inl (ValueError (''invalid size: '' @ sz @ ''. must be one of '' @ repr_set VALID_SIZES)), h)
      else (Inr (), h\<lparr>h_builder := (h_builder h)\<lparr>p_size := Some sz\<rparr>\<rparr>))"

definition h_set_milk :: "string \<Rightarrow> pyheap \<Rightarrow> (error + unit) \<times> pyheap" where
  "h_set_milk milk h =
     (if milk \<notin> set VALID_MILKS
      then (Inl (ValueError (''invalid milk type: '' @ milk @ ''. must be one of '' @ repr_set VALID_MILKS)), h)
      else (Inr (), h\<lparr>h_builder := (h_builder h)\<lparr>p_milk := milk\<rparr>\<rparr>))"

definition h_add_syrup :: "string \<Rightarrow> pyheap \<Rightarrow> (error + unit) \<times> pyheap" where
  "h_add_syrup name h =
     (let syrups = tuple_at h (p_syrups (h_builder h))
      in if int (length syrups) \<ge> MAX_SYRUPS
         then (Inl (ValueError (''cannot add more than '' @ str_int MAX_SYRUPS @ '' syrups'')), h)
         else if name \<notin> set syrups
         then (let (a, h1) = new_tuple (syrups @ [name]) h
               in (Inr (), h1\<lparr>h_builder := (h_builder h1)\<lparr>p_syrups := a\<rparr>\<rparr>))
         else (Inr (), h))"

definition h_set_sugar :: "int \<Rightarrow> pyheap \<Rightarrow> (error + unit) \<times> pyheap" where
  "h_set_sugar teaspoons h =
     (if \<not> (0 \<le> teaspoons \<and> teaspoons \<le> MAX_SUGAR)
      then (Inl (ValueError (''sugar quantity must be between 0 and '' @ str_int MAX_SUGAR)), h)
      else (Inr (), h\<lparr>h_builder := (h_builder h)\<lparr>p_sugar := teaspoons\<rparr>\<rparr>))"

definition h_set_iced :: "bool \<Rightarrow> pyheap \<Rightarrow> (error + unit) \<times> pyheap" where
  "h_set_iced iced h = (Inr (), h\<lparr>h_builder := (h_builder h)\<lparr>p_iced := iced\<rparr>\<rparr>)"

text \<open>\<^verbatim>\<open>build()\<close> computes the fields as \<open>build\<close> does, from what the builder's attributes
  read as, and returns a new \<^verbatim>\<open>CoffeeOrder\<close> object; \<^verbatim>\<open>syrups=self._syrups\<close> hands the
  order the builder's tuple object itself, not a copy.\<close>

definition h_build :: "pyheap \<Rightarrow> (error + addr) \<times> pyheap" where
  "h_build h =
     (case fst (build (view_builder h)) of
        Inl e \<Rightarrow> (Inl e, h)
      | Inr order \<Rightarrow>
          (Inr (order_next h),
           h\<lparr>order_at := (order_at h)(order_next h :=
                 \<lparr>q_base = o_base order, q_size = o_size order, q_milk = o_milk order,
                  q_syrups = p_syrups (h_builder h), q_sugar = o_sugar order,
                  q_iced = o_iced order, q_price = o_price order,
                  q_description = o_description order\<rparr>),
              order_next := Suc (order_next h)\<rparr>))"

text \<open>\<^verbatim>\<open>@dataclass(frozen=True)\<close>: an assignment \<^verbatim>\<open>order.field = value\<close>, whatever the field and
  the value, raises \<^verbatim>\<open>FrozenInstanceError\<close> and assigns nothing.\<close>

datatype attribute_error = FrozenInstanceError string

definition order_setattr :: "addr \<Rightarrow> string \<Rightarrow> pyheap \<Rightarrow> (attribute_error + unit) \<times> pyheap" where
  "order_setattr a field h =
     (Inl (FrozenInstanceError (''cannot assign to field '' @ [CHR 0x27] @ field @ [CHR 0x27])), h)"

text \<open>What a caller can do between two looks at an order: call a public method of the
  builder, or try to assign to a field of an order.\<close>

datatype h_op = Call op | Assign addr string

fun h_exec :: "h_op \<Rightarrow> pyheap \<Rightarrow> pyheap" where
  "h_exec (Call (SetBase x)) h = snd (h_set_base x h)"
| "h_exec (Call (SetSize x)) h = snd (h_set_size x h)"
| "h_exec (Call (SetMilk x)) h = snd (h_set_milk x h)"
| "h_exec (Call (AddSyrup x)) h = snd (h_add_syrup x h)"
| "h_exec (Call (SetSugar n)) h = snd (h_set_sugar n h)"
| "h_exec (Call (SetIced f)) h = snd (h_set_iced f h)"
| "h_exec (Call ClearExtras) h = snd (h_clear_extras h)"
| "h_exec (Call Build) h = snd (h_build h)"
| "h_exec (Assign a field) h = snd (order_setattr a field h)"

fun h_run :: "h_op list \<Rightarrow> pyheap \<Rightarrow> pyheap" where
  "h_run [] h = h"
| "h_run (x # xs) h = h_run xs (h_exec x h)"

text \<open>A heap with nothing allocated.\<close>

definition empty_heap :: pyheap where
  "empty_heap =
     \<lparr>tuple_at = (\<lambda>a. []), tuple_next = 0,
      order_at = (\<lambda>a. \<lparr>q_base = [], q_size = [], q_milk = [], q_syrups = 0, q_sugar = 0,
                         q_iced = False, q_price = 0, q_description = []\<rparr>),
      order_next = 0,
      h_builder = \<lparr>p_base = None, p_size = None, p_milk = [], p_syrups = 0, p_sugar = 0,
                   p_iced = False\<rparr>\<rparr>"

text \<open>The builder's tuple, and an order and its tuple, are allocated objects.\<close>

definition builder_live :: "pyheap \<Rightarrow> bool" where
  "builder_live h = (p_syrups (h_builder h) < tuple_next h)"

definition order_live :: "pyheap \<Rightarrow> addr \<Rightarrow> bool" where
  "order_live h a = (a < order_next h \<and> q_syrups (order_at h a) < tuple_next h)"

section \<open>Properties\<close>

subsection \<open>Rounding is a projection\<close>

text \<open>A binary64 number rounds to itself: \<open>rnd (rnd q) = rnd q\<close>. So adding \<^verbatim>\<open>0.0\<close> to a
  computed price leaves it as it is.\<close>

lemma pow2_powi: "pow2 e = 2 powi e"
  by (simp add: pow2_def power_int_def inverse_eq_divide power_one_over)

lemma pow2_pos: "0 < pow2 e"
  by (simp add: pow2_powi)

lemma pow2_add: "pow2 (a + b) = pow2 a * pow2 b"
  by (simp add: pow2_powi power_int_add)

lemma pow2_mono: "a \<le> b \<Longrightarrow> pow2 a \<le> pow2 b"
  by (simp add: pow2_powi power_int_increasing)

lemma pow2_strict_mono: "a < b \<Longrightarrow> pow2 a < pow2 b"
  by (simp add: pow2_powi power_int_strict_increasing)

lemma pow2_less_cancel: "pow2 a < pow2 b \<Longrightarrow> a < b"
  using pow2_mono [of b a] by (cases "a < b") auto

lemma pow2_nat: "0 \<le> e \<Longrightarrow> pow2 e = of_int (2 ^ nat e)"
  by (simp add: pow2_def)

lemma of_int_bitlen_bounds:
  assumes "0 < n"
  shows "pow2 (bitlen n - 1) \<le> of_int n" and "of_int n < pow2 (bitlen n)"
proof -
  from assms have b: "2 ^ nat (bitlen n - 1) \<le> n" "n < 2 ^ nat (bitlen n)"
    using bitlen_bounds [of n] by auto
  from assms have pos: "1 \<le> bitlen n"
    using bitlen_eq_zero_iff [of n] bitlen_nonneg [of n] by linarith
  have "(of_int (2 ^ nat (bitlen n - 1)) :: rat) \<le> of_int n"
    using b(1) by (simp only: of_int_le_iff)
  then show "pow2 (bitlen n - 1) \<le> of_int n"
    using pos by (simp add: pow2_nat)
  have "(of_int n :: rat) < of_int (2 ^ nat (bitlen n))"
    using b(2) by (simp only: of_int_less_iff)
  then show "of_int n < pow2 (bitlen n)"
    using pos by (simp add: pow2_nat)
qed

lemma ilog2_bounds:
  assumes "0 < q"
  shows "pow2 (ilog2 q) \<le> q \<and> q < pow2 (ilog2 q + 1)"
proof -
  obtain n d where nd: "quotient_of q = (n, d)" by (cases "quotient_of q")
  then have d: "0 < d" and q: "q = of_int n / of_int d"
    using quotient_of_denom_pos quotient_of_div by auto
  from assms q d have n: "0 < n"
    by (simp add: zero_less_divide_iff)
  define k where "k = bitlen n - bitlen d"
  have dq: "(0::rat) < of_int d" using d by simp
  have up: "q < pow2 (k + 1)"
  proof -
    have "of_int n < pow2 (bitlen n)" using of_int_bitlen_bounds(2) [OF n] .
    also have "pow2 (bitlen n) = pow2 (k + 1) * pow2 (bitlen d - 1)"
      by (simp add: pow2_add [symmetric] k_def)
    also have "\<dots> \<le> pow2 (k + 1) * of_int d"
      using of_int_bitlen_bounds(1) [OF d] pow2_pos [of "k + 1"] by simp
    finally show ?thesis using dq by (simp add: q pos_divide_less_eq)
  qed
  have lo: "pow2 (k - 1) < q"
  proof -
    have "pow2 (k - 1) * of_int d < pow2 (k - 1) * pow2 (bitlen d)"
      using of_int_bitlen_bounds(2) [OF d] pow2_pos [of "k - 1"] by simp
    also have "\<dots> = pow2 (bitlen n - 1)"
      by (simp add: pow2_add [symmetric] k_def)
    also have "\<dots> \<le> of_int n" using of_int_bitlen_bounds(1) [OF n] .
    finally show ?thesis using dq by (simp add: q pos_less_divide_eq)
  qed
  have il: "ilog2 q = (if pow2 k \<le> q then k else k - 1)"
    by (simp add: ilog2_def nd k_def Let_def)
  show ?thesis
  proof (cases "pow2 k \<le> q")
    case True
    with il up show ?thesis by simp
  next
    case False
    with il lo show ?thesis by simp
  qed
qed

lemma ilog2_unique:
  assumes "0 < q" "pow2 j \<le> q" "q < pow2 (j + 1)"
  shows "ilog2 q = j"
proof -
  from ilog2_bounds [OF assms(1)] have b: "pow2 (ilog2 q) \<le> q" "q < pow2 (ilog2 q + 1)"
    by auto
  have "pow2 (ilog2 q) < pow2 (j + 1)" using b(1) assms(3) by simp
  then have 1: "ilog2 q < j + 1" by (rule pow2_less_cancel)
  have "pow2 j < pow2 (ilog2 q + 1)" using b(2) assms(2) by simp
  then have 2: "j < ilog2 q + 1" by (rule pow2_less_cancel)
  from 1 2 show ?thesis by simp
qed

lemma round_half_even_of_int: "round_half_even (of_int z) = z"
  by (simp add: round_half_even_def)

lemma round_half_even_le: "r \<le> of_int N \<Longrightarrow> round_half_even r \<le> N"
proof -
  assume a: "r \<le> of_int N"
  show ?thesis
  proof (cases "r = of_int N")
    case True
    then show ?thesis by (simp add: round_half_even_of_int)
  next
    case False
    with a have "r < of_int N" by simp
    then have "\<lfloor>r\<rfloor> < N" by (simp add: floor_less_iff)
    then show ?thesis by (simp add: round_half_even_def Let_def)
  qed
qed

lemma round_half_even_nonneg: "0 \<le> r \<Longrightarrow> 0 \<le> round_half_even r"
proof -
  assume "0 \<le> r"
  then have "0 \<le> \<lfloor>r\<rfloor>" by simp
  then show ?thesis by (simp add: round_half_even_def Let_def)
qed

lemma rnd_of_int_pow2:
  assumes m: "0 < m" "m \<le> 2 ^ 53" and e: "- 1074 \<le> e"
  shows "rnd (of_int m * pow2 e) = of_int m * pow2 e"
proof -
  let ?y = "of_int m * pow2 e :: rat"
  have ypos: "0 < ?y" using m(1) pow2_pos [of e] by simp
  define e' where "e' = max (ilog2 ?y - 52) (- 1074)"
  have "\<exists>z. ?y = of_int z * pow2 e'"
  proof (cases "m = 2 ^ 53")
    case True
    have p53: "pow2 53 = 2 ^ 53" by (simp add: pow2_def)
    have y: "?y = pow2 (e + 53)" using True by (simp add: pow2_add p53)
    have "ilog2 ?y = e + 53"
      by (rule ilog2_unique [OF ypos]) (simp_all add: y pow2_strict_mono)
    then have "e' = e + 1" using e by (simp add: e'_def)
    have p52: "pow2 52 = of_int (2 ^ 52)" by (simp add: pow2_def)
    have eq: "e + 53 = 52 + (e + 1)" by simp
    have "pow2 (e + 53) = pow2 52 * pow2 (e + 1)"
      by (simp only: eq pow2_add)
    then have "?y = of_int (2 ^ 52) * pow2 e'"
      unfolding y \<open>e' = e + 1\<close> p52 .
    then show ?thesis by blast
  next
    case False
    with m have "m < 2 ^ 53" by simp
    then have "(of_int m :: rat) < of_int (2 ^ 53)" by (simp only: of_int_less_iff)
    then have "(of_int m :: rat) < pow2 53" by (simp add: pow2_def)
    then have "?y < pow2 53 * pow2 e" using pow2_pos [of e] by simp
    moreover have "pow2 53 * pow2 e = pow2 (e + 53)" by (simp only: pow2_add mult.commute)
    ultimately have lt: "?y < pow2 (e + 53)" by simp
    from ilog2_bounds [OF ypos] have "pow2 (ilog2 ?y) \<le> ?y" by simp
    with lt have "pow2 (ilog2 ?y) < pow2 (e + 53)" by simp
    then have "ilog2 ?y < e + 53" by (rule pow2_less_cancel)
    then have le: "e' \<le> e" using e by (simp add: e'_def)
    then have "pow2 e = pow2 (e - e') * pow2 e'" by (simp add: pow2_add [symmetric])
    also have "pow2 (e - e') = of_int (2 ^ nat (e - e'))" using le by (simp add: pow2_nat)
    finally have "?y = of_int (m * 2 ^ nat (e - e')) * pow2 e'" by simp
    then show ?thesis by blast
  qed
  then obtain z where z: "?y = of_int z * pow2 e'" by blast
  have "0 < (of_int z :: rat)"
    using ypos pow2_pos [of e'] unfolding z by (simp add: zero_less_mult_iff)
  have quot: "?y / pow2 e' = of_int z" using pow2_pos [of e'] by (simp add: z)
  have ne: "?y \<noteq> 0" using ypos by arith
  have step: "rnd ?y =
      sgn ?y * of_int (round_half_even (\<bar>?y\<bar> / pow2 (max (ilog2 \<bar>?y\<bar> - 52) (- 1074)))) *
        pow2 (max (ilog2 \<bar>?y\<bar> - 52) (- 1074))"
    unfolding rnd_def Let_def using ne by (rule if_not_P)
  have abs: "\<bar>?y\<bar> = ?y" using ypos by (rule abs_of_pos)
  have sg: "sgn ?y = 1" using ypos by (rule sgn_pos)
  have "rnd ?y = 1 * of_int (round_half_even (?y / pow2 e')) * pow2 e'"
    unfolding e'_def using step by (simp only: abs sg)
  also have "\<dots> = of_int z * pow2 e'"
    by (simp only: quot round_half_even_of_int mult_1)
  finally show ?thesis by (simp only: z [symmetric])
qed

lemma rnd_zero: "rnd 0 = 0"
  by (simp add: rnd_def)

lemma rnd_pos_idem:
  assumes "0 < a"
  shows "rnd (rnd a) = rnd a"
proof -
  define e where "e = max (ilog2 a - 52) (- 1074)"
  define m where "m = round_half_even (a / pow2 e)"
  have r: "rnd a = of_int m * pow2 e"
    using assms by (simp add: rnd_def Let_def e_def m_def)
  have e: "- 1074 \<le> e" by (simp add: e_def)
  have "0 \<le> a / pow2 e" using assms pow2_pos [of e] by simp
  then have m0: "0 \<le> m" unfolding m_def by (rule round_half_even_nonneg)
  have "a < pow2 (ilog2 a + 1)" using ilog2_bounds [OF assms] by simp
  also have "pow2 (ilog2 a + 1) \<le> pow2 (e + 53)"
    by (rule pow2_mono) (simp add: e_def)
  also have "pow2 (e + 53) = pow2 e * 2 ^ 53" using pow2_add [of e 53] by (simp add: pow2_def [of 53])
  finally have "a / pow2 e < 2 ^ 53" using pow2_pos [of e] by (simp add: pos_divide_less_eq mult.commute)
  then have "a / pow2 e \<le> of_int (2 ^ 53)" by simp
  then have m53: "m \<le> 2 ^ 53" unfolding m_def by (rule round_half_even_le)
  show ?thesis
  proof (cases "m = 0")
    case True
    with r have "rnd a = 0" by simp
    then show ?thesis by (simp add: rnd_zero)
  next
    case False
    with m0 have "0 < m" by simp
    then show ?thesis unfolding r using m53 e by (rule rnd_of_int_pow2)
  qed
qed

lemma rnd_uminus: "rnd (- q) = - rnd q"
  by (simp add: rnd_def Let_def)

lemma rnd_idem: "rnd (rnd q) = rnd q"
proof (cases "0 < q")
  case True
  then show ?thesis by (rule rnd_pos_idem)
next
  case False
  show ?thesis
  proof (cases "q = 0")
    case True
    then show ?thesis by (simp add: rnd_def)
  next
    case False
    with \<open>\<not> 0 < q\<close> have "0 < - q" by simp
    then have "rnd (rnd (- q)) = rnd (- q)" by (rule rnd_pos_idem)
    then show ?thesis by (simp add: rnd_uminus)
  qed
qed

lemma fadd_zero: "fadd (fadd x y) (float_lit 0) = fadd x y"
  by (simp add: fadd_def float_lit_def rnd_zero rnd_idem)

lemma fmul_exact: "fadd (fadd (fmul x y) (float_lit 0)) (fmul (float_of_int 0) z) = fmul x y"
  by (simp add: fadd_def fmul_def float_lit_def float_of_int_def rnd_zero rnd_idem)

subsection \<open>Auxiliary facts\<close>

lemma str_int_4: "str_int 4 = ''4''"
  by code_simp

lemma plus_join:
  "xs \<noteq> [] \<Longrightarrow> CHR ''+'' # join ''+'' xs = concat (map (\<lambda>s. CHR ''+'' # s) xs)"
  by (induction "''+''" xs rule: join.induct) auto

lemma build_description_spec:
  "b_base b = Some bs \<Longrightarrow> b_size b = Some sz \<Longrightarrow>
   build_description b = spec_description bs sz (b_milk b) (b_syrups b) (b_iced b) (b_sugar b)"
  unfolding build_description_def spec_description_def Let_def
  by (simp add: plus_join del: join.simps)

lemma build_description_field:
  "fst (build b) = Inr ord \<Longrightarrow> o_description ord = build_description b"
  by (auto simp: build_def Let_def split: option.splits if_splits sum.splits)

lemma build_state: "snd (build b) = b"
  by (simp add: build_def Let_def split: option.splits sum.splits)

text \<open>The code's dicts hold the specification's tables.\<close>

lemma BASE_PRICES_spec:
  "dict_get BASE_PRICES x =
     (case spec_BASE_PRICE x of Some p \<Rightarrow> Inr p | None \<Rightarrow> Inl (KeyError x))"
  by (simp add: dict_get_def BASE_PRICES_def spec_BASE_PRICE_def)

lemma SIZE_MULTIPLIERS_spec:
  "dict_get SIZE_MULTIPLIERS x =
     (case spec_SIZE_MULTIPLIER x of Some p \<Rightarrow> Inr p | None \<Rightarrow> Inl (KeyError x))"
  by (simp add: dict_get_def SIZE_MULTIPLIERS_def spec_SIZE_MULTIPLIER_def)

lemma MILK_PRICES_spec:
  "dict_get MILK_PRICES x =
     (case spec_MILK_SURCHARGE x of Some p \<Rightarrow> Inr p | None \<Rightarrow> Inl (KeyError x))"
  by (simp add: dict_get_def MILK_PRICES_def spec_MILK_SURCHARGE_def)

lemma spec_BASE_PRICE_valid:
  "bs \<in> {''espresso'', ''americano'', ''latte'', ''cappuccino''} \<Longrightarrow>
   \<exists>p. spec_BASE_PRICE bs = Some p"
  by (auto simp: spec_BASE_PRICE_def)

lemma spec_SIZE_MULTIPLIER_valid:
  "sz \<in> {''small'', ''medium'', ''large''} \<Longrightarrow> \<exists>p. spec_SIZE_MULTIPLIER sz = Some p"
  by (auto simp: spec_SIZE_MULTIPLIER_def)

lemma spec_MILK_SURCHARGE_valid:
  "mk \<in> {''none'', ''whole'', ''skim'', ''oat'', ''soy''} \<Longrightarrow>
   \<exists>p. spec_MILK_SURCHARGE mk = Some p"
  by (auto simp: spec_MILK_SURCHARGE_def)

lemma calculate_price_spec:
  assumes "b_base b = Some bs" "b_size b = Some sz"
    and "spec_BASE_PRICE bs = Some bp" "spec_SIZE_MULTIPLIER sz = Some sm"
    and "spec_MILK_SURCHARGE (b_milk b) = Some ms"
  shows "calculate_price b =
     Inr (fadd (fadd (fadd (fmul bp sm) ms)
                  (fmul (float_of_int (int (length (b_syrups b)))) (float_lit 40)))
            (if b_iced b then float_lit (2 / 10) else float_lit 0))"
  using assms
  by (simp add: calculate_price_def BASE_PRICES_spec SIZE_MULTIPLIERS_spec MILK_PRICES_spec
      Let_def SYRUP_PRICE_def ICED_PRICE_def fadd_zero)

lemma build_Inr:
  assumes "b_base b = Some bs" "b_size b = Some sz"
    and "length (b_syrups b) \<le> 4" "0 \<le> b_sugar b" "b_sugar b \<le> 5"
    and "calculate_price b = Inr p"
  shows "build b =
     (Inr \<lparr>o_base = bs, o_size = sz, o_milk = b_milk b, o_syrups = b_syrups b,
           o_sugar = b_sugar b, o_iced = b_iced b, o_price = p,
           o_description = build_description b\<rparr>, b)"
  using assms by (simp add: build_def MAX_SYRUPS_def MAX_SUGAR_def Let_def)

text \<open>Every public operation keeps the invariant, whether it returns or raises.\<close>

lemma builder_inv_init: "builder_inv init"
  by (simp add: builder_inv_def init_def VALID_MILKS_def)

lemma builder_inv_set_base: "builder_inv b \<Longrightarrow> builder_inv (snd (set_base x b))"
  by (simp add: builder_inv_def set_base_def)

lemma builder_inv_set_size: "builder_inv b \<Longrightarrow> builder_inv (snd (set_size x b))"
  by (simp add: builder_inv_def set_size_def)

lemma builder_inv_set_milk: "builder_inv b \<Longrightarrow> builder_inv (snd (set_milk x b))"
  by (simp add: builder_inv_def set_milk_def)

lemma builder_inv_add_syrup: "builder_inv b \<Longrightarrow> builder_inv (snd (add_syrup x b))"
  by (simp add: builder_inv_def add_syrup_def MAX_SYRUPS_def)

lemma builder_inv_set_sugar: "builder_inv b \<Longrightarrow> builder_inv (snd (set_sugar n b))"
  by (simp add: builder_inv_def set_sugar_def MAX_SUGAR_def)

lemma builder_inv_set_iced: "builder_inv b \<Longrightarrow> builder_inv (snd (set_iced f b))"
  by (simp add: builder_inv_def set_iced_def)

lemma builder_inv_clear_extras: "builder_inv b \<Longrightarrow> builder_inv (snd (clear_extras b))"
  by (simp add: builder_inv_def clear_extras_def VALID_MILKS_def)

lemma builder_inv_exec: "builder_inv (w_builder w) \<Longrightarrow> builder_inv (w_builder (exec x w))"
proof (cases x)
  case Build
  assume "builder_inv (w_builder w)"
  moreover have "w_builder (exec Build w) = snd (build (w_builder w))"
    by (cases "build (w_builder w)") (auto split: sum.splits)
  ultimately show ?thesis by (simp add: Build build_state del: exec.simps)
qed (simp_all add: builder_inv_set_base builder_inv_set_size builder_inv_set_milk
    builder_inv_add_syrup builder_inv_set_sugar builder_inv_set_iced builder_inv_clear_extras)

lemma builder_inv_run: "builder_inv (w_builder w) \<Longrightarrow> builder_inv (w_builder (run ops w))"
  by (induction ops arbitrary: w) (simp_all add: builder_inv_exec del: exec.simps)

lemma builder_inv_reachable: "builder_inv (w_builder (run ops fresh))"
  by (rule builder_inv_run) (simp add: fresh_def builder_inv_init)

lemma build_succeeds:
  assumes "builder_inv b" "b_base b = Some bs" "b_size b = Some sz"
  shows "\<exists>ord. build b = (Inr ord, b)"
proof -
  from assms have valid: "bs \<in> {''espresso'', ''americano'', ''latte'', ''cappuccino''}"
    "sz \<in> {''small'', ''medium'', ''large''}"
    "b_milk b \<in> {''none'', ''whole'', ''skim'', ''oat'', ''soy''}"
    and bounds: "length (b_syrups b) \<le> 4" "0 \<le> b_sugar b" "b_sugar b \<le> 5"
    by (simp_all add: builder_inv_def VALID_BASES_def VALID_SIZES_def VALID_MILKS_def)
  from spec_BASE_PRICE_valid [OF valid(1)] obtain bp where bp: "spec_BASE_PRICE bs = Some bp" ..
  from spec_SIZE_MULTIPLIER_valid [OF valid(2)] obtain sm
    where sm: "spec_SIZE_MULTIPLIER sz = Some sm" ..
  from spec_MILK_SURCHARGE_valid [OF valid(3)] obtain ms
    where ms: "spec_MILK_SURCHARGE (b_milk b) = Some ms" ..
  note cp = calculate_price_spec [OF assms(2) assms(3) bp sm ms]
  note bd = build_Inr [OF assms(2) assms(3) bounds cp]
  show ?thesis unfolding bd by (rule exI) (rule refl)
qed

subsection \<open>Price\<close>

text \<open>
  C1. For every builder state in which base and size are set (to one of the four bases
  and one of the three sizes), milk is one of the five milk categories, the syrups are at
  most 4 distinct names and sugar is between 0 and 5, \<^verbatim>\<open>build()\<close> returns an order, leaves
  the builder as it was, and the order's price is
  \<^verbatim>\<open>BASE_PRICE[base] * SIZE_MULTIPLIER[size] + MILK_SURCHARGE[milk] + n * 40.0 + (0.2 if iced else 0)\<close>
  with \<open>n\<close> the number of distinct syrups and the tables of the specification, each
  operation being the binary64 one.
\<close>

theorem C1_price:
  assumes "b_base b = Some bs" and "b_size b = Some sz"
    and "bs \<in> {''espresso'', ''americano'', ''latte'', ''cappuccino''}"
    and "sz \<in> {''small'', ''medium'', ''large''}"
    and "b_milk b \<in> {''none'', ''whole'', ''skim'', ''oat'', ''soy''}"
    and "distinct (b_syrups b)" and "length (b_syrups b) \<le> 4"
    and "0 \<le> b_sugar b" and "b_sugar b \<le> 5"
  shows "\<exists>ord. build b = (Inr ord, b) \<and>
     Some (o_price ord) = spec_price bs sz (b_milk b) (card (set (b_syrups b))) (b_iced b)"
proof -
  from spec_BASE_PRICE_valid [OF assms(3)] obtain bp where bp: "spec_BASE_PRICE bs = Some bp" ..
  from spec_SIZE_MULTIPLIER_valid [OF assms(4)] obtain sm
    where sm: "spec_SIZE_MULTIPLIER sz = Some sm" ..
  from spec_MILK_SURCHARGE_valid [OF assms(5)] obtain ms
    where ms: "spec_MILK_SURCHARGE (b_milk b) = Some ms" ..
  have card: "card (set (b_syrups b)) = length (b_syrups b)"
    using assms(6) by (rule distinct_card)
  note cp = calculate_price_spec [OF assms(1) assms(2) bp sm ms]
  note bd = build_Inr [OF assms(1) assms(2) assms(7) assms(8) assms(9) cp]
  show ?thesis
    by (simp add: bd spec_price_def bp sm ms card)
qed

theorem C1_price_witness:
  "b_base \<lparr>b_base = Some ''cappuccino'', b_size = Some ''large'', b_milk = ''oat'',
            b_syrups = [''vanilla'', ''caramel''], b_sugar = 2, b_iced = True\<rparr> = Some ''cappuccino'' \<and>
   distinct [''vanilla'', ''caramel''] \<and>
   (\<exists>ord. build \<lparr>b_base = Some ''cappuccino'', b_size = Some ''large'', b_milk = ''oat'',
            b_syrups = [''vanilla'', ''caramel''], b_sugar = 2, b_iced = True\<rparr> =
        (Inr ord, \<lparr>b_base = Some ''cappuccino'', b_size = Some ''large'', b_milk = ''oat'',
            b_syrups = [''vanilla'', ''caramel''], b_sugar = 2, b_iced = True\<rparr>) \<and>
      Some (o_price ord) =
        spec_price ''cappuccino'' ''large'' ''oat'' (card (set [''vanilla'', ''caramel''])) True)"
  using C1_price [of "\<lparr>b_base = Some ''cappuccino'', b_size = Some ''large'', b_milk = ''oat'',
            b_syrups = [''vanilla'', ''caramel''], b_sugar = 2, b_iced = True\<rparr>"
            "''cappuccino''" "''large''"]
  by simp

subsection \<open>add_syrup\<close>

text \<open>
  C2, as the code has it. \<^verbatim>\<open>add_syrup\<close> tests the capacity before it looks for the name.
  For a name already in the syrup sequence the call returns normally and leaves the
  builder as it was while the builder holds fewer than 4 syrups; with 4 syrups (or more)
  it raises \<^verbatim>\<open>ValueError("cannot add more than 4 syrups")\<close>, the name being present or not,
  and the builder is as it was.
\<close>

theorem C2_add_syrup_present:
  "name \<in> set (b_syrups b) \<Longrightarrow>
   add_syrup name b =
     (if length (b_syrups b) < 4 then (Inr (), b)
      else (Inl (ValueError ''cannot add more than 4 syrups''), b))"
  by (simp add: add_syrup_def MAX_SYRUPS_def str_int_4)

theorem C2_add_syrup_present_witness:
  "''a'' \<in> set (b_syrups (init\<lparr>b_syrups := [''a'', ''b'']\<rparr>)) \<and>
   add_syrup ''a'' (init\<lparr>b_syrups := [''a'', ''b'']\<rparr>) =
     (Inr (), init\<lparr>b_syrups := [''a'', ''b'']\<rparr>)"
  using C2_add_syrup_present [of "''a''" "init\<lparr>b_syrups := [''a'', ''b'']\<rparr>"]
  by (simp add: init_def)

text \<open>
  C2 as stated fails where the builder holds 4 syrups: adding \<^verbatim>\<open>"a"\<close> again to the syrups
  \<^verbatim>\<open>("a", "b", "c", "d")\<close> raises.
\<close>

theorem C2_add_syrup_present_at_capacity:
  "''a'' \<in> set (b_syrups (init\<lparr>b_syrups := [''a'', ''b'', ''c'', ''d'']\<rparr>)) \<and>
   fst (add_syrup ''a'' (init\<lparr>b_syrups := [''a'', ''b'', ''c'', ''d'']\<rparr>)) =
     Inl (ValueError ''cannot add more than 4 syrups'')"
  by (simp add: add_syrup_def init_def MAX_SYRUPS_def str_int_4)

text \<open>
  C6. In every builder state whose syrup sequence holds 4 entries, \<^verbatim>\<open>add_syrup\<close> with a
  name that is not among them raises a \<^verbatim>\<open>ValueError\<close> whose message names the limit, and the
  builder (the syrup sequence and every other field) is as it was before the call. The
  message reads \<^verbatim>\<open>cannot add more than 4 syrups\<close>.
\<close>

theorem C6_add_syrup_capacity:
  "length (b_syrups b) = 4 \<Longrightarrow> name \<notin> set (b_syrups b) \<Longrightarrow>
   add_syrup name b = (Inl (ValueError ''cannot add more than 4 syrups''), b)"
  by (simp add: add_syrup_def MAX_SYRUPS_def str_int_4)

theorem C6_add_syrup_capacity_witness:
  "length (b_syrups (init\<lparr>b_syrups := [''a'', ''b'', ''c'', ''d'']\<rparr>)) = 4 \<and>
   ''e'' \<notin> set (b_syrups (init\<lparr>b_syrups := [''a'', ''b'', ''c'', ''d'']\<rparr>)) \<and>
   add_syrup ''e'' (init\<lparr>b_syrups := [''a'', ''b'', ''c'', ''d'']\<rparr>) =
     (Inl (ValueError ''cannot add more than 4 syrups''),
      init\<lparr>b_syrups := [''a'', ''b'', ''c'', ''d'']\<rparr>)"
  using C6_add_syrup_capacity [of "init\<lparr>b_syrups := [''a'', ''b'', ''c'', ''d'']\<rparr>" "''e''"]
  by (simp add: init_def)

subsection \<open>build\<close>

text \<open>
  C7. \<^verbatim>\<open>build()\<close> raises \<^verbatim>\<open>ValueError("base is required")\<close> whenever the base is unset, and
  \<^verbatim>\<open>ValueError("size is required")\<close> whenever the base is set and the size is not; in both
  cases no order is returned and the builder is as it was.
\<close>

theorem C7_build_missing_field:
  "(b_base b = None \<longrightarrow> build b = (Inl (ValueError ''base is required''), b)) \<and>
   (b_base b \<noteq> None \<and> b_size b = None \<longrightarrow>
      build b = (Inl (ValueError ''size is required''), b))"
  by (auto simp: build_def split: option.splits)

theorem C7_build_missing_field_witness:
  "b_base init = None \<and> build init = (Inl (ValueError ''base is required''), init) \<and>
   b_base (init\<lparr>b_base := Some ''espresso''\<rparr>) \<noteq> None \<and>
   b_size (init\<lparr>b_base := Some ''espresso''\<rparr>) = None \<and>
   build (init\<lparr>b_base := Some ''espresso''\<rparr>) =
     (Inl (ValueError ''size is required''), init\<lparr>b_base := Some ''espresso''\<rparr>)"
  using C7_build_missing_field [of init]
    C7_build_missing_field [of "init\<lparr>b_base := Some ''espresso''\<rparr>"]
  by (simp add: init_def)

text \<open>
  C3. On a fresh builder, \<^verbatim>\<open>set_base("latte")\<close>, \<^verbatim>\<open>set_size("medium")\<close> and three calls of
  \<^verbatim>\<open>add_syrup("vanilla")\<close> all return normally, and \<^verbatim>\<open>build()\<close> then returns an order with
  the one syrup \<^verbatim>\<open>vanilla\<close> and the price 400.0 exactly.
\<close>

theorem C3_repeated_vanilla:
  "chain (chain (chain (chain (chain (set_base ''latte'' init) (set_size ''medium''))
      (add_syrup ''vanilla'')) (add_syrup ''vanilla'')) (add_syrup ''vanilla'')) build =
   (Inr \<lparr>o_base = ''latte'', o_size = ''medium'', o_milk = ''none'', o_syrups = [''vanilla''],
         o_sugar = 0, o_iced = False, o_price = 400,
         o_description = ''medium latte +vanilla''\<rparr>,
    \<lparr>b_base = Some ''latte'', b_size = Some ''medium'', b_milk = ''none'',
      b_syrups = [''vanilla''], b_sugar = 0, b_iced = False\<rparr>)"
  by code_simp

text \<open>
  C4, at the input of the repository's own test: base \<^verbatim>\<open>americano\<close>, size \<^verbatim>\<open>small\<close>, no
  extras. The order built without ice costs 250.0, the order built with ice costs the
  binary64 number nearest to 250.2, and their difference, computed as Python computes it,
  is \<open>3518437208883 / 2\<^sup>4\<^sup>4\<close> (0.19999999999998863...), which is not \<^verbatim>\<open>ICED_PRICE\<close>, the
  binary64 number nearest to 0.2.
\<close>

theorem C4_iced_difference_americano_small:
  "fst (build (init\<lparr>b_base := Some ''americano'', b_size := Some ''small''\<rparr>)) =
     Inr \<lparr>o_base = ''americano'', o_size = ''small'', o_milk = ''none'', o_syrups = [],
          o_sugar = 0, o_iced = False, o_price = 250, o_description = ''small americano''\<rparr> \<and>
   fst (build (init\<lparr>b_base := Some ''americano'', b_size := Some ''small'', b_iced := True\<rparr>)) =
     Inr \<lparr>o_base = ''americano'', o_size = ''small'', o_milk = ''none'', o_syrups = [],
          o_sugar = 0, o_iced = True, o_price = 4401564948312883 / 17592186044416,
          o_description = ''small americano (iced)''\<rparr> \<and>
   fsub (4401564948312883 / 17592186044416) 250 = 3518437208883 / 17592186044416 \<and>
   ICED_PRICE = 3602879701896397 / 18014398509481984 \<and>
   fsub (4401564948312883 / 17592186044416) 250 \<noteq> ICED_PRICE"
  by code_simp

text \<open>
  C5. For every builder state with base and size set, \<^verbatim>\<open>_build_description\<close> returns the
  space-join of the parts the specification lists, in its order, and that string is the
  description of the order \<^verbatim>\<open>build()\<close> returns. In particular the state cappuccino, large,
  oat, syrups vanilla and caramel, sugar 2, iced builds the description
  \<^verbatim>\<open>large cappuccino with oat milk +vanilla+caramel (iced) 2 tsp sugar\<close>.
\<close>

theorem C5_description:
  "(b_base b = Some bs \<and> b_size b = Some sz \<longrightarrow>
      build_description b = spec_description bs sz (b_milk b) (b_syrups b) (b_iced b) (b_sugar b) \<and>
      (\<forall>ord. fst (build b) = Inr ord \<longrightarrow>
         o_description ord =
           spec_description bs sz (b_milk b) (b_syrups b) (b_iced b) (b_sugar b))) \<and>
   fst (build \<lparr>b_base = Some ''cappuccino'', b_size = Some ''large'', b_milk = ''oat'',
               b_syrups = [''vanilla'', ''caramel''], b_sugar = 2, b_iced = True\<rparr>) =
     Inr \<lparr>o_base = ''cappuccino'', o_size = ''large'', o_milk = ''oat'',
          o_syrups = [''vanilla'', ''caramel''], o_sugar = 2, o_iced = True,
          o_price = float_lit (5882 / 10),
          o_description = ''large cappuccino with oat milk +vanilla+caramel (iced) 2 tsp sugar''\<rparr>"
proof -
  have general: "b_base b = Some bs \<and> b_size b = Some sz \<longrightarrow>
      build_description b = spec_description bs sz (b_milk b) (b_syrups b) (b_iced b) (b_sugar b) \<and>
      (\<forall>ord. fst (build b) = Inr ord \<longrightarrow>
         o_description ord =
           spec_description bs sz (b_milk b) (b_syrups b) (b_iced b) (b_sugar b))"
    using build_description_spec build_description_field by metis
  have scenario: "fst (build \<lparr>b_base = Some ''cappuccino'', b_size = Some ''large'', b_milk = ''oat'',
               b_syrups = [''vanilla'', ''caramel''], b_sugar = 2, b_iced = True\<rparr>) =
     Inr \<lparr>o_base = ''cappuccino'', o_size = ''large'', o_milk = ''oat'',
          o_syrups = [''vanilla'', ''caramel''], o_sugar = 2, o_iced = True,
          o_price = float_lit (5882 / 10),
          o_description = ''large cappuccino with oat milk +vanilla+caramel (iced) 2 tsp sugar''\<rparr>"
    by code_simp
  from general scenario show ?thesis by blast
qed

theorem C5_description_witness:
  "b_base \<lparr>b_base = Some ''latte'', b_size = Some ''small'', b_milk = ''soy'',
           b_syrups = [''mint''], b_sugar = 0, b_iced = False\<rparr> = Some ''latte'' \<and>
   b_size \<lparr>b_base = Some ''latte'', b_size = Some ''small'', b_milk = ''soy'',
           b_syrups = [''mint''], b_sugar = 0, b_iced = False\<rparr> = Some ''small'' \<and>
   build_description \<lparr>b_base = Some ''latte'', b_size = Some ''small'', b_milk = ''soy'',
           b_syrups = [''mint''], b_sugar = 0, b_iced = False\<rparr> =
     ''small latte with soy milk +mint''"
  using C5_description [of "\<lparr>b_base = Some ''latte'', b_size = Some ''small'', b_milk = ''soy'',
           b_syrups = [''mint''], b_sugar = 0, b_iced = False\<rparr>" "''latte''" "''small''"]
  by (simp add: spec_description_def)

subsection \<open>clear_extras\<close>

text \<open>
  C8. In every builder state \<^verbatim>\<open>clear_extras()\<close> returns normally, sets milk to \<^verbatim>\<open>none\<close>,
  the syrups to the empty sequence, sugar to 0 and iced to false, and leaves base and size
  as they were: the builder is then a fresh builder with the old base and size. A
  \<^verbatim>\<open>build()\<close> that follows (with base and size set to keys of the price tables) returns the
  order of base and size alone: default extras, the price
  \<^verbatim>\<open>BASE_PRICES[base] * SIZE_MULTIPLIERS[size]\<close> and the description \<^verbatim>\<open>"{size} {base}"\<close>.
\<close>

theorem C8_clear_extras:
  "clear_extras b = (Inr (), init\<lparr>b_base := b_base b, b_size := b_size b\<rparr>) \<and>
   b_milk (snd (clear_extras b)) = ''none'' \<and>
   b_syrups (snd (clear_extras b)) = [] \<and>
   b_sugar (snd (clear_extras b)) = 0 \<and>
   b_iced (snd (clear_extras b)) = False \<and>
   b_base (snd (clear_extras b)) = b_base b \<and>
   b_size (snd (clear_extras b)) = b_size b \<and>
   (b_base b = Some bs \<and> b_size b = Some sz \<and>
      dict_get BASE_PRICES bs = Inr bp \<and> dict_get SIZE_MULTIPLIERS sz = Inr sm \<longrightarrow>
      build (snd (clear_extras b)) =
        (Inr \<lparr>o_base = bs, o_size = sz, o_milk = ''none'', o_syrups = [], o_sugar = 0,
              o_iced = False, o_price = fmul bp sm, o_description = sz @ '' '' @ bs\<rparr>,
         snd (clear_extras b)))"
  by (auto simp: clear_extras_def init_def build_def calculate_price_def build_description_def
      MAX_SYRUPS_def MAX_SUGAR_def Let_def MILK_PRICES_def dict_get_def [of _ "''none''"]
      SYRUP_PRICE_def fmul_exact)

theorem C8_clear_extras_witness:
  "dict_get BASE_PRICES ''cappuccino'' = Inr (float_lit 320) \<and>
   dict_get SIZE_MULTIPLIERS ''large'' = Inr (float_lit (14 / 10)) \<and>
   build (snd (clear_extras \<lparr>b_base = Some ''cappuccino'', b_size = Some ''large'', b_milk = ''oat'',
            b_syrups = [''vanilla'', ''caramel''], b_sugar = 2, b_iced = True\<rparr>)) =
     (Inr \<lparr>o_base = ''cappuccino'', o_size = ''large'', o_milk = ''none'', o_syrups = [],
           o_sugar = 0, o_iced = False, o_price = fmul (float_lit 320) (float_lit (14 / 10)),
           o_description = ''large cappuccino''\<rparr>,
      \<lparr>b_base = Some ''cappuccino'', b_size = Some ''large'', b_milk = ''none'',
        b_syrups = [], b_sugar = 0, b_iced = False\<rparr>)"
proof -
  have 1: "dict_get BASE_PRICES ''cappuccino'' = Inr (float_lit 320)"
    by (simp add: dict_get_def BASE_PRICES_def)
  have 2: "dict_get SIZE_MULTIPLIERS ''large'' = Inr (float_lit (14 / 10))"
    by (simp add: dict_get_def SIZE_MULTIPLIERS_def)
  have 3: "snd (clear_extras \<lparr>b_base = Some ''cappuccino'', b_size = Some ''large'', b_milk = ''oat'',
            b_syrups = [''vanilla'', ''caramel''], b_sugar = 2, b_iced = True\<rparr>) =
      \<lparr>b_base = Some ''cappuccino'', b_size = Some ''large'', b_milk = ''none'',
        b_syrups = [], b_sugar = 0, b_iced = False\<rparr>"
    by (simp add: clear_extras_def)
  show ?thesis
    using C8_clear_extras [of "\<lparr>b_base = Some ''cappuccino'', b_size = Some ''large'', b_milk = ''oat'',
            b_syrups = [''vanilla'', ''caramel''], b_sugar = 2, b_iced = True\<rparr>"
            "''cappuccino''" "''large''" "float_lit 320" "float_lit (14 / 10)"] 1 2
    unfolding 3 by simp
qed

subsection \<open>Built orders\<close>

text \<open>The methods on the heap do to the builder's attributes what the methods on values
  do.\<close>

lemma heap_setters_refine:
  "fst (h_set_base x h) = fst (set_base x (view_builder h))"
  "view_builder (snd (h_set_base x h)) = snd (set_base x (view_builder h))"
  "fst (h_set_size x h) = fst (set_size x (view_builder h))"
  "view_builder (snd (h_set_size x h)) = snd (set_size x (view_builder h))"
  "fst (h_set_milk x h) = fst (set_milk x (view_builder h))"
  "view_builder (snd (h_set_milk x h)) = snd (set_milk x (view_builder h))"
  "fst (h_add_syrup x h) = fst (add_syrup x (view_builder h))"
  "view_builder (snd (h_add_syrup x h)) = snd (add_syrup x (view_builder h))"
  "fst (h_set_sugar n h) = fst (set_sugar n (view_builder h))"
  "view_builder (snd (h_set_sugar n h)) = snd (set_sugar n (view_builder h))"
  "fst (h_set_iced f h) = fst (set_iced f (view_builder h))"
  "view_builder (snd (h_set_iced f h)) = snd (set_iced f (view_builder h))"
  "fst (h_clear_extras h) = fst (clear_extras (view_builder h))"
  "view_builder (snd (h_clear_extras h)) = snd (clear_extras (view_builder h))"
  by (simp_all add: h_set_base_def set_base_def h_set_size_def set_size_def h_set_milk_def
      set_milk_def h_add_syrup_def add_syrup_def h_set_sugar_def set_sugar_def h_set_iced_def
      set_iced_def h_clear_extras_def clear_extras_def view_builder_def new_tuple_def Let_def)

lemma h_init_view: "view_builder (h_init h) = init"
  by (simp add: h_init_def h_clear_extras_def new_tuple_def view_builder_def init_def Let_def)

text \<open>No operation writes to an allocated tuple or order: new objects go to unused
  addresses, and the assignment to a frozen order raises.\<close>

lemma builder_live_init: "builder_live (h_init h)"
  by (simp add: builder_live_def h_init_def h_clear_extras_def new_tuple_def Let_def)

lemma builder_live_exec: "builder_live h \<Longrightarrow> builder_live (h_exec x h)"
proof (cases x)
  case (Call c)
  assume "builder_live h"
  then show ?thesis
    unfolding Call
    by (cases c)
      (auto simp: builder_live_def h_set_base_def h_set_size_def h_set_milk_def h_add_syrup_def
        h_set_sugar_def h_set_iced_def h_clear_extras_def h_build_def new_tuple_def Let_def
        split: sum.splits)
next
  case (Assign a f)
  assume "builder_live h"
  then show ?thesis by (simp add: Assign order_setattr_def)
qed

lemma builder_live_run: "builder_live h \<Longrightarrow> builder_live (h_run ops h)"
  by (induction ops arbitrary: h) (simp_all add: builder_live_exec del: h_exec.simps)

lemma order_kept_exec:
  assumes "order_live h a"
  shows "order_live (h_exec x h) a \<and> view_order (h_exec x h) a = view_order h a"
proof (cases x)
  case (Call c)
  from assms show ?thesis
    unfolding Call
    by (cases c)
      (auto simp: order_live_def view_order_def h_set_base_def h_set_size_def h_set_milk_def
        h_add_syrup_def h_set_sugar_def h_set_iced_def h_clear_extras_def h_build_def
        new_tuple_def Let_def split: sum.splits)
next
  case (Assign b f)
  from assms show ?thesis by (simp add: Assign order_setattr_def)
qed

lemma order_kept_run:
  "order_live h a \<Longrightarrow> order_live (h_run ops h) a \<and> view_order (h_run ops h) a = view_order h a"
proof (induction ops arbitrary: h)
  case Nil
  then show ?case by simp
next
  case (Cons x xs)
  from order_kept_exec [OF Cons.prems, of x]
  have 1: "order_live (h_exec x h) a" and 2: "view_order (h_exec x h) a = view_order h a"
    by simp_all
  from Cons.IH [OF 1] 2 show ?case by (simp del: h_exec.simps)
qed

lemma build_syrups: "fst (build b) = Inr ord \<Longrightarrow> o_syrups ord = b_syrups b"
  by (auto simp: build_def Let_def split: option.splits if_splits sum.splits)

lemma h_build_result:
  assumes "fst (h_build h) = Inr a" and "builder_live h"
  shows "order_live (snd (h_build h)) a"
    and "fst (build (view_builder h)) = Inr (view_order (snd (h_build h)) a)"
    and "q_syrups (order_at (snd (h_build h)) a) = p_syrups (h_builder (snd (h_build h)))"
proof -
  from assms(1) obtain ord where ord: "fst (build (view_builder h)) = Inr ord"
    by (cases "fst (build (view_builder h))") (simp_all add: h_build_def)
  with assms(1) have a: "a = order_next h" by (simp add: h_build_def)
  from build_syrups [OF ord] have s: "o_syrups ord = tuple_at h (p_syrups (h_builder h))"
    by (simp add: view_builder_def)
  show "order_live (snd (h_build h)) a"
    using assms(2) by (simp add: h_build_def ord a order_live_def builder_live_def)
  show "fst (build (view_builder h)) = Inr (view_order (snd (h_build h)) a)"
    by (simp add: h_build_def ord a view_order_def s [symmetric])
  show "q_syrups (order_at (snd (h_build h)) a) = p_syrups (h_builder (snd (h_build h)))"
    by (simp add: h_build_def ord a)
qed

text \<open>
  C9. Take a builder made by \<^verbatim>\<open>__init__\<close> and used through its public methods, and let
  \<^verbatim>\<open>build()\<close> return the order object \<open>a\<close>. Its fields are those \<open>build\<close> computes, and its
  \<^verbatim>\<open>syrups\<close> is the builder's own tuple object. Whatever follows (\<^verbatim>\<open>set_base\<close>,
  \<^verbatim>\<open>set_size\<close>, \<^verbatim>\<open>set_milk\<close>, \<^verbatim>\<open>add_syrup\<close>, \<^verbatim>\<open>set_sugar\<close>, \<^verbatim>\<open>set_iced\<close>, \<^verbatim>\<open>clear_extras\<close>,
  \<^verbatim>\<open>build\<close>, returning or raising, or an attempt to assign to a field of an order), every
  field of \<open>a\<close> (base, size, milk, syrups, sugar, iced, price, description) reads as it did
  when \<open>a\<close> was built.
\<close>

theorem C9_built_order_unchanged:
  assumes "fst (h_build (h_run ops1 (h_init h0))) = Inr a"
  shows "fst (build (view_builder (h_run ops1 (h_init h0)))) =
           Inr (view_order (snd (h_build (h_run ops1 (h_init h0)))) a) \<and>
         q_syrups (order_at (snd (h_build (h_run ops1 (h_init h0)))) a) =
           p_syrups (h_builder (snd (h_build (h_run ops1 (h_init h0))))) \<and>
         view_order (h_run ops2 (snd (h_build (h_run ops1 (h_init h0))))) a =
           view_order (snd (h_build (h_run ops1 (h_init h0)))) a"
proof -
  have live: "builder_live (h_run ops1 (h_init h0))"
    by (rule builder_live_run) (rule builder_live_init)
  note r = h_build_result [OF assms live]
  from order_kept_run [OF r(1), of ops2] r(2) r(3) show ?thesis by simp
qed

theorem C9_built_order_unchanged_witness:
  "fst (h_build (h_run [Call (SetBase ''cappuccino''), Call (SetSize ''large''),
          Call (AddSyrup ''vanilla'')] (h_init empty_heap))) = Inr 0 \<and>
   view_order (h_run [Call (AddSyrup ''caramel''), Call (SetBase ''americano''),
          Assign 0 ''price'', Call ClearExtras, Call (SetSugar 1), Call (SetSize ''small''),
          Call Build]
        (snd (h_build (h_run [Call (SetBase ''cappuccino''), Call (SetSize ''large''),
          Call (AddSyrup ''vanilla'')] (h_init empty_heap))))) 0 =
     \<lparr>o_base = ''cappuccino'', o_size = ''large'', o_milk = ''none'', o_syrups = [''vanilla''],
      o_sugar = 0, o_iced = False, o_price = 488,
      o_description = ''large cappuccino +vanilla''\<rparr>"
proof -
  have b: "fst (h_build (h_run [Call (SetBase ''cappuccino''), Call (SetSize ''large''),
          Call (AddSyrup ''vanilla'')] (h_init empty_heap))) = Inr 0"
    by code_simp
  have v: "view_order (snd (h_build (h_run [Call (SetBase ''cappuccino''), Call (SetSize ''large''),
          Call (AddSyrup ''vanilla'')] (h_init empty_heap)))) 0 =
     \<lparr>o_base = ''cappuccino'', o_size = ''large'', o_milk = ''none'', o_syrups = [''vanilla''],
      o_sugar = 0, o_iced = False, o_price = 488,
      o_description = ''large cappuccino +vanilla''\<rparr>"
    by code_simp
  from C9_built_order_unchanged [OF b, of "[Call (AddSyrup ''caramel''), Call (SetBase ''americano''),
          Assign 0 ''price'', Call ClearExtras, Call (SetSugar 1), Call (SetSize ''small''),
          Call Build]"] b v
  show ?thesis by (simp del: h_exec.simps h_run.simps)
qed

subsection \<open>Reachable states\<close>

text \<open>
  C10. In every builder state reached from a fresh builder by public operations (returning
  or raising), the syrup names are pairwise distinct and at most 4, and sugar is between 0
  and 5. So \<^verbatim>\<open>build()\<close> never raises from its re-checks of the syrup count and the sugar
  range there; with base and size set it returns an order.
\<close>

theorem C10_reachable_invariant:
  "distinct (b_syrups (w_builder (run ops fresh))) \<and>
   length (b_syrups (w_builder (run ops fresh))) \<le> 4 \<and>
   0 \<le> b_sugar (w_builder (run ops fresh)) \<and>
   b_sugar (w_builder (run ops fresh)) \<le> 5 \<and>
   fst (build (w_builder (run ops fresh))) \<noteq> Inl (ValueError ''cannot have more than 4 syrups'') \<and>
   fst (build (w_builder (run ops fresh))) \<noteq>
     Inl (ValueError ''sugar quantity must be between 0 and 5'') \<and>
   (b_base (w_builder (run ops fresh)) \<noteq> None \<and> b_size (w_builder (run ops fresh)) \<noteq> None \<longrightarrow>
      (\<exists>ord. build (w_builder (run ops fresh)) = (Inr ord, w_builder (run ops fresh))))"
proof -
  define b where "b = w_builder (run ops fresh)"
  have inv: "builder_inv b" unfolding b_def by (rule builder_inv_reachable)
  then have basic: "distinct (b_syrups b)" "length (b_syrups b) \<le> 4"
    "0 \<le> b_sugar b" "b_sugar b \<le> 5"
    by (simp_all add: builder_inv_def)
  have ok: "b_base b \<noteq> None \<and> b_size b \<noteq> None \<longrightarrow> (\<exists>ord. build b = (Inr ord, b))"
    using build_succeeds [OF inv] by auto
  have n1: "fst (build b) \<noteq> Inl (ValueError ''cannot have more than 4 syrups'')"
    using ok by (cases "b_base b"; cases "b_size b") (auto simp: build_def)
  have n2: "fst (build b) \<noteq> Inl (ValueError ''sugar quantity must be between 0 and 5'')"
    using ok by (cases "b_base b"; cases "b_size b") (auto simp: build_def)
  from basic n1 n2 ok show ?thesis unfolding b_def by blast
qed

theorem C10_reachable_invariant_witness:
  "b_base (w_builder (run [SetBase ''latte'', SetSize ''small'', AddSyrup ''a'', AddSyrup ''b'',
        AddSyrup ''c'', AddSyrup ''d'', AddSyrup ''e'', SetSugar 9, SetSugar 3] fresh)) \<noteq> None \<and>
   b_size (w_builder (run [SetBase ''latte'', SetSize ''small'', AddSyrup ''a'', AddSyrup ''b'',
        AddSyrup ''c'', AddSyrup ''d'', AddSyrup ''e'', SetSugar 9, SetSugar 3] fresh)) \<noteq> None \<and>
   (\<exists>ord. build (w_builder (run [SetBase ''latte'', SetSize ''small'', AddSyrup ''a'', AddSyrup ''b'',
        AddSyrup ''c'', AddSyrup ''d'', AddSyrup ''e'', SetSugar 9, SetSugar 3] fresh)) =
      (Inr ord, \<lparr>b_base = Some ''latte'', b_size = Some ''small'', b_milk = ''none'',
         b_syrups = [''a'', ''b'', ''c'', ''d''], b_sugar = 3, b_iced = False\<rparr>))"
proof -
  have ev: "w_builder (run [SetBase ''latte'', SetSize ''small'', AddSyrup ''a'', AddSyrup ''b'',
        AddSyrup ''c'', AddSyrup ''d'', AddSyrup ''e'', SetSugar 9, SetSugar 3] fresh) =
      \<lparr>b_base = Some ''latte'', b_size = Some ''small'', b_milk = ''none'',
         b_syrups = [''a'', ''b'', ''c'', ''d''], b_sugar = 3, b_iced = False\<rparr>"
    by code_simp
  show ?thesis
    using C10_reachable_invariant [of "[SetBase ''latte'', SetSize ''small'', AddSyrup ''a'',
        AddSyrup ''b'', AddSyrup ''c'', AddSyrup ''d'', AddSyrup ''e'', SetSugar 9, SetSugar 3]"]
    unfolding ev by simp
qed

end
